theory Spec2Isabelle
  imports Complex_Main
begin

section \<open>Data model\<close>

text \<open>
  The server actions of the repository work on three tables of the persistence layer
  (users, accounts, transactions) through the Prisma client \<open>db\<close>. A table is a list of
  rows. Identifiers are strings (UUIDs in the source: \<open>ACCOUNT_ID\<close>, \<open>USER_ID\<close>).
  Decimal amounts and balances are exact rationals: \<open>toNumber()\<close> and \<open>Number(...)\<close> are
  the identity here, so the rounding of JavaScript doubles is not part of the model.
  A \<open>Date\<close> is its ECMAScript time value, the milliseconds since the epoch.
  Columns that no operation under verification reads (\<open>status\<close>, \<open>createdAt\<close>,
  \<open>updatedAt\<close>) are left out of the rows.
\<close>

type_synonym ident = string
type_synonym Date = int

text \<open>
  Modelled from the spec: the Prisma schema is not among the source files, so the two
  enumerations are taken from the data model of the specification: the type is
  \<open>INCOME | EXPENSE\<close>, the interval is \<open>DAILY | WEEKLY | MONTHLY | YEARLY\<close>.
\<close>

datatype TransactionType = INCOME | EXPENSE

datatype RecurringInterval = DAILY | WEEKLY | MONTHLY | YEARLY

record User =
  u_id :: ident
  u_clerkUserId :: ident

record Account =
  a_id :: ident
  a_userId :: ident
  a_balance :: rat

record Transaction =
  t_id :: ident
  t_type :: TransactionType
  t_amount :: rat
  t_description :: string
  t_date :: Date
  t_category :: string
  t_isRecurring :: bool
  t_recurringInterval :: "RecurringInterval option"
  t_nextRecurringDate :: "Date option"
  t_userId :: ident
  t_accountId :: ident

text \<open>The \<open>data\<close> argument of \<open>createTransaction\<close> and \<open>updateTransaction\<close>.\<close>

record TransactionInput =
  d_type :: TransactionType
  d_amount :: rat
  d_description :: string
  d_date :: Date
  d_category :: string
  d_accountId :: ident
  d_isRecurring :: bool
  d_recurringInterval :: "RecurringInterval option"

record DB =
  users :: "User list"
  accounts :: "Account list"
  transactions :: "Transaction list"

text \<open>
  A JavaScript \<open>Error\<close> with its message. An async function either rejects with an error
  (\<open>Inl\<close>) or resolves with a value (\<open>Inr\<close>). The object \<open>{ success, data | error }\<close> that
  the actions resolve with is a \<open>result\<close>.
\<close>

datatype error = Error string

datatype 'a result = Success 'a | Failure string

section \<open>Dates: the ECMAScript day and month arithmetic\<close>

text \<open>
  \<open>calculateNextRecurringDate\<close> and date-fns' \<open>subDays\<close> work through \<open>getDate\<close>,
  \<open>setDate\<close>, \<open>getMonth\<close>, \<open>setMonth\<close>, \<open>getFullYear\<close> and \<open>setFullYear\<close> of the built-in
  \<open>Date\<close>. These follow the abstract operations of the ECMAScript standard (Day,
  TimeWithinDay, DayFromYear, YearFromTime, MonthFromTime, DateFromTime, MakeDay,
  MakeDate). The local time zone is taken to be UTC, so local time is the time value.
\<close>

definition msPerDay :: int where
  "msPerDay = 86400000"

definition Day :: "int \<Rightarrow> int" where
  "Day t = t div msPerDay"

definition TimeWithinDay :: "int \<Rightarrow> int" where
  "TimeWithinDay t = t mod msPerDay"

definition DaysInYear :: "int \<Rightarrow> int" where
  "DaysInYear y =
     (if y mod 4 \<noteq> 0 then 365
      else if y mod 100 \<noteq> 0 then 366
      else if y mod 400 \<noteq> 0 then 365
      else 366)"

definition DayFromYear :: "int \<Rightarrow> int" where
  "DayFromYear y =
     365 * (y - 1970) + (y - 1969) div 4 - (y - 1901) div 100 + (y - 1601) div 400"

text \<open>
  The standard defines the year of a day as the largest \<open>y\<close> with \<open>DayFromYear y \<le> day\<close>.
  It is computed from an estimate over the 400-year cycle of 146097 days, corrected by
  one year in either direction.
\<close>

definition YearFromDay :: "int \<Rightarrow> int" where
  "YearFromDay d =
     (let y = 1970 + (400 * d) div 146097
      in if d < DayFromYear y then y - 1
         else if DayFromYear (y + 1) \<le> d then y + 1
         else y)"

definition YearFromTime :: "int \<Rightarrow> int" where
  "YearFromTime t = YearFromDay (Day t)"

definition InLeapYear :: "int \<Rightarrow> int" where
  "InLeapYear t = (if DaysInYear (YearFromTime t) = 366 then 1 else 0)"

definition DayWithinYear :: "int \<Rightarrow> int" where
  "DayWithinYear t = Day t - DayFromYear (YearFromTime t)"

text \<open>The number of days of a year before its month \<open>m\<close> (0 is January), \<open>l\<close> being 1 in a leap year.\<close>

definition monthStart :: "int \<Rightarrow> int \<Rightarrow> int" where
  "monthStart l m =
     (if m = 0 then 0 else if m = 1 then 31 else if m = 2 then 59 + l
      else if m = 3 then 90 + l else if m = 4 then 120 + l else if m = 5 then 151 + l
      else if m = 6 then 181 + l else if m = 7 then 212 + l else if m = 8 then 243 + l
      else if m = 9 then 273 + l else if m = 10 then 304 + l else 334 + l)"

definition MonthFromTime :: "int \<Rightarrow> int" where
  "MonthFromTime t =
     (let d = DayWithinYear t; l = InLeapYear t
      in if d < 31 then 0 else if d < 59 + l then 1 else if d < 90 + l then 2
         else if d < 120 + l then 3 else if d < 151 + l then 4 else if d < 181 + l then 5
         else if d < 212 + l then 6 else if d < 243 + l then 7 else if d < 273 + l then 8
         else if d < 304 + l then 9 else if d < 334 + l then 10 else 11)"

definition DateFromTime :: "int \<Rightarrow> int" where
  "DateFromTime t = DayWithinYear t - monthStart (InLeapYear t) (MonthFromTime t) + 1"

text \<open>
  \<open>MakeDay\<close> carries a month outside 0..11 into the year and counts the day of the month
  from the first of that month, so a day past the end of the month runs into the next.
\<close>

definition MakeDay :: "int \<Rightarrow> int \<Rightarrow> int \<Rightarrow> int" where
  "MakeDay year month dt =
     (let ym = year + month div 12; mn = month mod 12
      in DayFromYear ym + monthStart (if DaysInYear ym = 366 then 1 else 0) mn + dt - 1)"

definition MakeDate :: "int \<Rightarrow> int \<Rightarrow> int" where
  "MakeDate day time = day * msPerDay + time"

definition getFullYear :: "Date \<Rightarrow> int" where
  "getFullYear t = YearFromTime t"

definition getMonth :: "Date \<Rightarrow> int" where
  "getMonth t = MonthFromTime t"

definition getDate :: "Date \<Rightarrow> int" where
  "getDate t = DateFromTime t"

definition setDate :: "Date \<Rightarrow> int \<Rightarrow> Date" where
  "setDate t dt = MakeDate (MakeDay (YearFromTime t) (MonthFromTime t) dt) (TimeWithinDay t)"

definition setMonth :: "Date \<Rightarrow> int \<Rightarrow> Date" where
  "setMonth t m = MakeDate (MakeDay (YearFromTime t) m (DateFromTime t)) (TimeWithinDay t)"

definition setFullYear :: "Date \<Rightarrow> int \<Rightarrow> Date" where
  "setFullYear t y = MakeDate (MakeDay y (MonthFromTime t) (DateFromTime t)) (TimeWithinDay t)"


subsection \<open>The recurring-date calculator\<close>

fun calculateNextRecurringDate :: "Date \<Rightarrow> RecurringInterval \<Rightarrow> Date" where
  "calculateNextRecurringDate startDate DAILY = setDate startDate (getDate startDate + 1)"
| "calculateNextRecurringDate startDate WEEKLY = setDate startDate (getDate startDate + 7)"
| "calculateNextRecurringDate startDate MONTHLY = setMonth startDate (getMonth startDate + 1)"
| "calculateNextRecurringDate startDate YEARLY = setFullYear startDate (getFullYear startDate + 1)"

section \<open>The persistence layer\<close>

text \<open>
  The Prisma client is an external collaborator. Its calls are modelled by what the
  specification's section on external interfaces says of them: record lookup filtered by
  equality (\<open>findFirst\<close>), single-record and bulk writes, and \<open>$transaction\<close>, which runs a
  list of write statements in order and commits all of them or none.
\<close>

definition user_findFirst :: "DB \<Rightarrow> ident \<Rightarrow> User option" where
  "user_findFirst db clerkUserId = find (\<lambda>u. u_clerkUserId u = clerkUserId) (users db)"

definition account_findFirst :: "DB \<Rightarrow> ident \<Rightarrow> ident \<Rightarrow> Account option" where
  "account_findFirst db accountId userId =
     find (\<lambda>a. a_id a = accountId \<and> a_userId a = userId) (accounts db)"

definition transaction_findFirst :: "DB \<Rightarrow> ident \<Rightarrow> ident \<Rightarrow> Transaction option" where
  "transaction_findFirst db tid userId =
     find (\<lambda>t. t_id t = tid \<and> t_userId t = userId) (transactions db)"

definition account_by_id :: "DB \<Rightarrow> ident \<Rightarrow> Account option" where
  "account_by_id db accountId = find (\<lambda>a. a_id a = accountId) (accounts db)"

text \<open>The \<open>balance\<close> field of \<open>account.update\<close>: a number, or \<open>{ increment: n }\<close>.\<close>

datatype BalanceUpdate = SetBalance rat | IncrementBalance rat

fun apply_balance :: "BalanceUpdate \<Rightarrow> rat \<Rightarrow> rat" where
  "apply_balance (SetBalance b) old = b"
| "apply_balance (IncrementBalance n) old = old + n"

text \<open>
  The write statements the actions hand to \<open>$transaction\<close>:
  \<open>transaction.create({ data })\<close>,
  \<open>transaction.update({ where: { id, userId }, data })\<close> with the submitted fields and the
  computed \<open>nextRecurringDate\<close>,
  \<open>account.update({ where: { id }, data: { balance } })\<close>,
  \<open>transaction.deleteMany({ where: { accountId } })\<close> and
  \<open>transaction.createMany({ data })\<close>.
\<close>

datatype Statement =
    TransactionCreate Transaction
  | TransactionUpdate ident ident TransactionInput "Date option"
  | AccountUpdate ident BalanceUpdate
  | TransactionDeleteMany ident
  | TransactionCreateMany "Transaction list"

datatype StatementResult = TransactionRow Transaction | AccountRow Account | BatchCount nat

text \<open>\<open>{ ...data, nextRecurringDate }\<close> written over a stored row: id and owner stay.\<close>

definition overwrite_fields :: "TransactionInput \<Rightarrow> Date option \<Rightarrow> Transaction \<Rightarrow> Transaction" where
  "overwrite_fields d nrd t =
     t\<lparr> t_type := d_type d, t_amount := d_amount d, t_description := d_description d,
        t_date := d_date d, t_category := d_category d, t_isRecurring := d_isRecurring d,
        t_recurringInterval := d_recurringInterval d, t_nextRecurringDate := nrd,
        t_accountId := d_accountId d \<rparr>"

text \<open>The table after \<open>transaction.update\<close> and after \<open>account.update\<close>.\<close>

definition update_transaction_rows ::
  "ident \<Rightarrow> ident \<Rightarrow> TransactionInput \<Rightarrow> Date option \<Rightarrow> Transaction list \<Rightarrow> Transaction list" where
  "update_transaction_rows tid uid d nrd rows =
     map (\<lambda>r. if t_id r = tid \<and> t_userId r = uid then overwrite_fields d nrd r else r) rows"

definition update_account_rows :: "ident \<Rightarrow> BalanceUpdate \<Rightarrow> Account list \<Rightarrow> Account list" where
  "update_account_rows aid upd rows =
     map (\<lambda>r. if a_id r = aid then r\<lparr> a_balance := apply_balance upd (a_balance r) \<rparr> else r) rows"

text \<open>
  One statement on the working copy of the database. \<open>update\<close> of a record that does not
  exist fails, as Prisma's does.
\<close>

fun exec_statement :: "Statement \<Rightarrow> DB \<Rightarrow> error + (StatementResult \<times> DB)" where
  "exec_statement (TransactionCreate row) db =
     Inr (TransactionRow row, db\<lparr> transactions := transactions db @ [row] \<rparr>)"
| "exec_statement (TransactionUpdate tid uid d nrd) db =
     (case transaction_findFirst db tid uid of
        None \<Rightarrow> Inl (Error ''Record to update not found.'')
      | Some t \<Rightarrow>
          Inr (TransactionRow (overwrite_fields d nrd t),
               db\<lparr> transactions := update_transaction_rows tid uid d nrd (transactions db) \<rparr>))"
| "exec_statement (AccountUpdate aid upd) db =
     (case account_by_id db aid of
        None \<Rightarrow> Inl (Error ''Record to update not found.'')
      | Some a \<Rightarrow>
          Inr (AccountRow (a\<lparr> a_balance := apply_balance upd (a_balance a) \<rparr>),
               db\<lparr> accounts := update_account_rows aid upd (accounts db) \<rparr>))"
| "exec_statement (TransactionDeleteMany aid) db =
     Inr (BatchCount (length (filter (\<lambda>t. t_accountId t = aid) (transactions db))),
          db\<lparr> transactions := filter (\<lambda>t. t_accountId t \<noteq> aid) (transactions db) \<rparr>)"
| "exec_statement (TransactionCreateMany rows) db =
     Inr (BatchCount (length rows), db\<lparr> transactions := transactions db @ rows \<rparr>)"

text \<open>
  A persistence failure that does not follow from the data (a lost connection, a
  violated constraint) is injected from outside: \<open>Some (i, msg)\<close> makes the statement at
  position \<open>i\<close> of the batch fail with message \<open>msg\<close>.
\<close>

type_synonym Fault = "(nat \<times> string) option"

fun run_statements :: "Fault \<Rightarrow> nat \<Rightarrow> Statement list \<Rightarrow> DB \<Rightarrow> error + (StatementResult list \<times> DB)" where
  "run_statements fault i [] db = Inr ([], db)"
| "run_statements fault i (s # ss) db =
     (case (case fault of Some (k, msg) \<Rightarrow> if k = i then Inl (Error msg) else exec_statement s db
                        | None \<Rightarrow> exec_statement s db) of
        Inl e \<Rightarrow> Inl e
      | Inr (r, db1) \<Rightarrow>
          (case run_statements fault (Suc i) ss db1 of
             Inl e \<Rightarrow> Inl e
           | Inr (rs, db2) \<Rightarrow> Inr (r # rs, db2)))"

text \<open>
  \<open>db.$transaction([...])\<close>: the results and the new database when every statement
  succeeded; the error of the first failing statement otherwise, and then the caller
  keeps the database it had.
\<close>

definition dollar_transaction :: "Fault \<Rightarrow> Statement list \<Rightarrow> DB \<Rightarrow> error + (StatementResult list \<times> DB)" where
  "dollar_transaction fault stmts db = run_statements fault 0 stmts db"

section \<open>The transaction actions\<close>

text \<open>
  What the actions take from outside the database: the identity provider's answer
  (\<open>auth()\<close>), the rate limiter's decision (\<open>aj.protect\<close>), the id the persistence layer
  gives a created row, and the injected persistence fault. Logging (\<open>console.error\<close>) and
  the cache invalidation signal (\<open>revalidatePath\<close>) neither touch the database nor shape
  the result, and are not part of the model.
\<close>

datatype Decision = Allowed | DeniedRateLimit | DeniedOther

record Env =
  auth_userId :: "ident option"
  decision :: Decision
  new_id :: ident
  fault :: Fault

text \<open>\<open>data.type === "EXPENSE" ? -data.amount : data.amount\<close>\<close>

definition balanceChange :: "TransactionType \<Rightarrow> rat \<Rightarrow> rat" where
  "balanceChange ty amount = (if ty = EXPENSE then - amount else amount)"

text \<open>
  \<open>data.isRecurring && data.recurringInterval ? calculateNextRecurringDate(...) : null\<close>
\<close>

definition nextRecurringDate :: "TransactionInput \<Rightarrow> Date option" where
  "nextRecurringDate d =
     (if d_isRecurring d then
        (case d_recurringInterval d of
           Some interval \<Rightarrow> Some (calculateNextRecurringDate (d_date d) interval)
         | None \<Rightarrow> None)
      else None)"

text \<open>\<open>{ ...data, userId: user.id, nextRecurringDate }\<close> as a row with the id it is given.\<close>

definition new_row :: "ident \<Rightarrow> ident \<Rightarrow> TransactionInput \<Rightarrow> Transaction" where
  "new_row tid uid d =
     \<lparr> t_id = tid, t_type = d_type d, t_amount = d_amount d, t_description = d_description d,
       t_date = d_date d, t_category = d_category d, t_isRecurring = d_isRecurring d,
       t_recurringInterval = d_recurringInterval d, t_nextRecurringDate = nextRecurringDate d,
       t_userId = uid, t_accountId = d_accountId d \<rparr>"

definition serializeAmount :: "Transaction \<Rightarrow> Transaction" where
  "serializeAmount obj = obj\<lparr> t_amount := t_amount obj \<rparr>"

text \<open>
  The identity resolver at the head of every action: \<open>auth()\<close>, then the user row.
  \<open>!userId\<close> holds for \<open>null\<close> and for the empty string.
\<close>

definition resolve_user :: "Env \<Rightarrow> DB \<Rightarrow> error + User" where
  "resolve_user env db =
     (case auth_userId env of
        None \<Rightarrow> Inl (Error ''Unauthorized'')
      | Some userId \<Rightarrow>
          if userId = [] then Inl (Error ''Unauthorized'')
          else (case user_findFirst db userId of
                  None \<Rightarrow> Inl (Error ''User not found'')
                | Some user \<Rightarrow> Inr user))"

text \<open>
  The statement lists handed to \<open>$transaction\<close>. \<open>createTransaction\<close> writes the balance
  it computed from the account it read; \<open>updateTransaction\<close> increments the balance of
  the account named by the submitted data by the net change.
\<close>

definition create_statements :: "ident \<Rightarrow> User \<Rightarrow> Account \<Rightarrow> TransactionInput \<Rightarrow> Statement list" where
  "create_statements tid user account d =
     (let newBalance = a_balance account + balanceChange (d_type d) (d_amount d)
      in [TransactionCreate (new_row tid (u_id user) d),
          AccountUpdate (d_accountId d) (SetBalance newBalance)])"

definition netBalanceChange :: "Transaction \<Rightarrow> TransactionInput \<Rightarrow> rat" where
  "netBalanceChange originalTransaction d =
     (let oldBalanceChange =
            balanceChange (t_type originalTransaction) (t_amount originalTransaction);
          newBalanceChange = balanceChange (d_type d) (d_amount d)
      in newBalanceChange - oldBalanceChange)"

definition update_statements :: "ident \<Rightarrow> User \<Rightarrow> Transaction \<Rightarrow> TransactionInput \<Rightarrow> Statement list" where
  "update_statements tid user originalTransaction d =
     [TransactionUpdate tid (u_id user) d (nextRecurringDate d),
      AccountUpdate (d_accountId d) (IncrementBalance (netBalanceChange originalTransaction d))]"

text \<open>The body of the \<open>try\<close> block of \<open>createTransaction\<close>: \<open>Inl\<close> is a \<open>throw\<close>.\<close>

definition createTransaction_try :: "Env \<Rightarrow> TransactionInput \<Rightarrow> DB \<Rightarrow> (error + Transaction) \<times> DB" where
  "createTransaction_try env d db =
     (case auth_userId env of
        None \<Rightarrow> (Inl (Error ''Unauthorized''), db)
      | Some userId \<Rightarrow>
          if userId = [] then (Inl (Error ''Unauthorized''), db)
          else (case decision env of
             DeniedRateLimit \<Rightarrow> (Inl (Error ''Too many requests. Please try again later.''), db)
           | DeniedOther \<Rightarrow> (Inl (Error ''Request blocked''), db)
           | Allowed \<Rightarrow>
              (case user_findFirst db userId of
                 None \<Rightarrow> (Inl (Error ''User not found''), db)
               | Some user \<Rightarrow>
                  (case account_findFirst db (d_accountId d) (u_id user) of
                     None \<Rightarrow> (Inl (Error ''Account not found''), db)
                   | Some account \<Rightarrow>
                      (case dollar_transaction (fault env)
                              (create_statements (new_id env) user account d) db of
                         Inl e \<Rightarrow> (Inl e, db)
                       | Inr (TransactionRow transaction # rs, db') \<Rightarrow> (Inr transaction, db')
                       | Inr (rs, db') \<Rightarrow> (Inl (Error ''TypeError''), db'))))))"

text \<open>The \<open>catch\<close> of the mutations: \<open>return { success: false, error: error.message }\<close>.\<close>

fun catch_to_result :: "(error + Transaction) \<Rightarrow> error + Transaction result" where
  "catch_to_result (Inl (Error msg)) = Inr (Failure msg)"
| "catch_to_result (Inr transaction) = Inr (Success (serializeAmount transaction))"

definition createTransaction :: "Env \<Rightarrow> TransactionInput \<Rightarrow> DB \<Rightarrow> (error + Transaction result) \<times> DB" where
  "createTransaction env d db =
     (case createTransaction_try env d db of (r, db') \<Rightarrow> (catch_to_result r, db'))"

text \<open>\<open>getTransaction\<close>: the \<open>catch\<close> logs and throws the error again.\<close>

definition getTransaction :: "Env \<Rightarrow> ident \<Rightarrow> DB \<Rightarrow> error + Transaction" where
  "getTransaction env tid db =
     (case resolve_user env db of
        Inl e \<Rightarrow> Inl e
      | Inr user \<Rightarrow>
          (case transaction_findFirst db tid (u_id user) of
             None \<Rightarrow> Inl (Error ''Transaction not found'')
           | Some transaction \<Rightarrow> Inr (serializeAmount transaction)))"

definition updateTransaction_try :: "Env \<Rightarrow> ident \<Rightarrow> TransactionInput \<Rightarrow> DB \<Rightarrow> (error + Transaction) \<times> DB" where
  "updateTransaction_try env tid d db =
     (case resolve_user env db of
        Inl e \<Rightarrow> (Inl e, db)
      | Inr user \<Rightarrow>
          (case transaction_findFirst db tid (u_id user) of
             None \<Rightarrow> (Inl (Error ''Transaction not found''), db)
           | Some originalTransaction \<Rightarrow>
              (case dollar_transaction (fault env)
                      (update_statements tid user originalTransaction d) db of
                 Inl e \<Rightarrow> (Inl e, db)
               | Inr (TransactionRow transaction # rs, db') \<Rightarrow> (Inr transaction, db')
               | Inr (rs, db') \<Rightarrow> (Inl (Error ''TypeError''), db'))))"

definition updateTransaction :: "Env \<Rightarrow> ident \<Rightarrow> TransactionInput \<Rightarrow> DB \<Rightarrow> (error + Transaction result) \<times> DB" where
  "updateTransaction env tid d db =
     (case updateTransaction_try env tid d db of (r, db') \<Rightarrow> (catch_to_result r, db'))"

text \<open>
  \<open>getUserTransactions(query)\<close>: the \<open>where\<close> object is \<open>{ userId: user.id, ...query }\<close>, so
  a \<open>userId\<close> in the query replaces the resolved one; the other conditions of the query are
  a predicate on rows. Rows come newest first, each with its account. The \<open>catch\<close>
  returns the failure object.
\<close>

record Query =
  q_userId :: "ident option"
  q_where :: "Transaction \<Rightarrow> bool"

definition transaction_findMany :: "DB \<Rightarrow> ident \<Rightarrow> Query \<Rightarrow> (Transaction \<times> Account option) list" where
  "transaction_findMany db userId query =
     (let uid = (case q_userId query of None \<Rightarrow> userId | Some other \<Rightarrow> other);
          rows = filter (\<lambda>t. t_userId t = uid \<and> q_where query t) (transactions db)
      in map (\<lambda>t. (t, account_by_id db (t_accountId t))) (sort_key (\<lambda>t. - t_date t) rows))"

definition getUserTransactions :: "Env \<Rightarrow> Query \<Rightarrow> DB \<Rightarrow> error + (Transaction \<times> Account option) list result" where
  "getUserTransactions env query db =
     (case resolve_user env db of
        Inl (Error msg) \<Rightarrow> Inr (Failure msg)
      | Inr user \<Rightarrow>
          Inr (Success (map (\<lambda>(t, a). (serializeAmount t, a))
                          (transaction_findMany db (u_id user) query))))"

section \<open>The receipt extraction adapter\<close>

text \<open>
  The generative model and \<open>JSON.parse\<close> are external. What reaches \<open>scanReceipt\<close> from the
  model is either an error thrown on the way (reading the file, the transport, the
  model) or the response text. \<open>JSON.parse\<close> is a parameter: it throws, or gives a value.
  Of a parsed value only this matters: reading a property of \<open>null\<close> throws, and any other
  value yields the five fields, \<open>parseFloat\<close> and \<open>new Date\<close> never throwing (they give \<open>NaN\<close>
  and an invalid date, \<open>None\<close> here).
\<close>

record ScannedReceipt =
  r_amount :: "rat option"
  r_date :: "Date option"
  r_description :: "string option"
  r_category :: "string option"
  r_merchantName :: "string option"

datatype json = JNull | JValue ScannedReceipt

text \<open>\<open>text.replace(/```(?:json)?\n?/g, "")\<close>: every fence, with an optional \<open>json\<close> and an optional newline after it, is removed.\<close>

definition drop_prefix :: "string \<Rightarrow> string \<Rightarrow> string" where
  "drop_prefix p s = (if take (length p) s = p then drop (length p) s else s)"

definition after_fence :: "string \<Rightarrow> string" where
  "after_fence s = drop_prefix [CHR 0x0A] (drop_prefix ''json'' (drop 3 s))"

lemma length_drop_prefix: "length (drop_prefix p s) \<le> length s"
  by (simp add: drop_prefix_def)

lemma length_after_fence: "s \<noteq> [] \<Longrightarrow> length (after_fence s) < length s"
  unfolding after_fence_def
  by (rule le_less_trans[OF length_drop_prefix], rule le_less_trans[OF length_drop_prefix])
     (cases s, auto)

function strip_fences :: "string \<Rightarrow> string" where
  "strip_fences s =
     (if s = [] then []
      else if take 3 s = ''```'' then strip_fences (after_fence s)
      else hd s # strip_fences (tl s))"
  by pat_completeness auto
termination
  by (relation "measure length") (auto simp: length_after_fence)

definition is_space :: "char \<Rightarrow> bool" where
  "is_space c = (c \<in> set [CHR 0x20, CHR 0x09, CHR 0x0A, CHR 0x0B, CHR 0x0C, CHR 0x0D])"

definition trim :: "string \<Rightarrow> string" where
  "trim s = rev (dropWhile is_space (rev (dropWhile is_space s)))"

text \<open>The inner \<open>try\<close>: a failure of the parse or of the field reads is caught and \<open>Invalid receipt format\<close> is thrown.\<close>

definition scanReceipt_parse :: "(string \<Rightarrow> error + json) \<Rightarrow> string \<Rightarrow> error + ScannedReceipt" where
  "scanReceipt_parse JSON_parse cleanedText =
     (case (case JSON_parse cleanedText of
              Inl e \<Rightarrow> Inl e
            | Inr JNull \<Rightarrow> Inl (Error ''Cannot read properties of null'')
            | Inr (JValue receipt) \<Rightarrow> Inr receipt) of
        Inl parseError \<Rightarrow> Inl (Error ''Invalid receipt format'')
      | Inr receipt \<Rightarrow> Inr receipt)"

text \<open>The outer \<open>try\<close> holds the whole body, the inner \<open>try\<close> included; its \<open>catch\<close> throws \<open>Failed to process receipt\<close>.\<close>

definition scanReceipt :: "(error + string) \<Rightarrow> (string \<Rightarrow> error + json) \<Rightarrow> error + ScannedReceipt" where
  "scanReceipt response JSON_parse =
     (case (case response of
              Inl e \<Rightarrow> Inl e
            | Inr text \<Rightarrow> scanReceipt_parse JSON_parse (trim (strip_fences text))) of
        Inl error \<Rightarrow> Inl (Error ''Failed to process receipt'')
      | Inr receipt \<Rightarrow> Inr receipt)"

section \<open>The demo seeder\<close>

definition ACCOUNT_ID :: ident where
  "ACCOUNT_ID = ''8e9de477-116a-4394-9d9f-c295813af632''"





text \<open>
  \<open>Math.random()\<close> is a sequence of numbers given from outside: the call number \<open>k\<close> of a run
  returns \<open>random k\<close>. Each function that draws numbers takes the sequence and the number
  of calls made so far.
\<close>




text \<open>The variables of the generation loops: the rows pushed, the running balance change, the calls of \<open>Math.random\<close> made.\<close>

record SeedState =
  s_transactions :: "Transaction list"
  s_balanceChange :: rat
  s_calls :: nat

text \<open>
  Modelled from the spec: the column defaults of the Prisma schema are not among the
  source files; by the data model of the specification a row is recurring only when
  marked so, hence a row that sets none of the three fields has \<open>isRecurring = false\<close>, no
  interval and no next date.
\<close>





text \<open>The ids \<open>createMany\<close> gives the rows: row number \<open>k\<close> of the batch gets \<open>ids k\<close>.\<close>

fun with_ids :: "(nat \<Rightarrow> ident) \<Rightarrow> nat \<Rightarrow> Transaction list \<Rightarrow> Transaction list" where
  "with_ids ids k [] = []"
| "with_ids ids k (r # rs) = r\<lparr> t_id := ids k \<rparr> # with_ids ids (Suc k) rs"

record SeedEnv =
  clock_now :: Date
  math_random :: "nat \<Rightarrow> rat"
  seed_ids :: "nat \<Rightarrow> ident"
  seed_fault :: Fault




text \<open>The database after the three statements of the seeder have been committed.\<close>

definition seeded_db :: "SeedEnv \<Rightarrow> Account \<Rightarrow> SeedState \<Rightarrow> DB \<Rightarrow> DB" where
  "seeded_db env account st db =
     db\<lparr> transactions := filter (\<lambda>t. t_accountId t \<noteq> ACCOUNT_ID) (transactions db) @
                            with_ids (seed_ids env) 0 (s_transactions st),
         accounts := update_account_rows ACCOUNT_ID
                       (SetBalance (a_balance account + s_balanceChange st)) (accounts db) \<rparr>"



section \<open>Example data\<close>

text \<open>
  A small database for the concrete instances below: two users, three accounts, and one
  transaction of each user.
\<close>

definition ex_user :: User where
  "ex_user = \<lparr> u_id = ''u1'', u_clerkUserId = ''clerk_1'' \<rparr>"

definition ex_account :: Account where
  "ex_account = \<lparr> a_id = ''acc1'', a_userId = ''u1'', a_balance = 1000 \<rparr>"

definition ex_transaction :: Transaction where
  "ex_transaction =
     \<lparr> t_id = ''t1'', t_type = EXPENSE, t_amount = 100, t_description = ''rent'',
       t_date = 1706659200000, t_category = ''housing'', t_isRecurring = False,
       t_recurringInterval = None, t_nextRecurringDate = None,
       t_userId = ''u1'', t_accountId = ''acc1'' \<rparr>"

definition ex_foreign_transaction :: Transaction where
  "ex_foreign_transaction =
     \<lparr> t_id = ''t2'', t_type = INCOME, t_amount = 40, t_description = ''gift'',
       t_date = 1706659200000, t_category = ''other-income'', t_isRecurring = False,
       t_recurringInterval = None, t_nextRecurringDate = None,
       t_userId = ''u2'', t_accountId = ''acc3'' \<rparr>"

definition ex_db :: DB where
  "ex_db =
     \<lparr> users = [ex_user, \<lparr> u_id = ''u2'', u_clerkUserId = ''clerk_2'' \<rparr>],
       accounts = [ex_account,
                   \<lparr> a_id = ''acc2'', a_userId = ''u1'', a_balance = 500 \<rparr>,
                   \<lparr> a_id = ''acc3'', a_userId = ''u2'', a_balance = 70 \<rparr>],
       transactions = [ex_transaction, ex_foreign_transaction] \<rparr>"

definition ex_env :: Env where
  "ex_env = \<lparr> auth_userId = Some ''clerk_1'', decision = Allowed, new_id = ''t9'', fault = None \<rparr>"

definition ex_input :: TransactionInput where
  "ex_input =
     \<lparr> d_type = EXPENSE, d_amount = 150, d_description = ''rent'', d_date = 1706659200000,
       d_category = ''housing'', d_accountId = ''acc1'', d_isRecurring = True,
       d_recurringInterval = Some MONTHLY \<rparr>"

definition ex_env_fault :: Env where
  "ex_env_fault = ex_env\<lparr> fault := Some (1, ''connection lost'') \<rparr>"

definition ex_move_input :: TransactionInput where
  "ex_move_input = ex_input\<lparr> d_accountId := ''acc2'' \<rparr>"

definition ex_env_anonymous :: Env where
  "ex_env_anonymous = ex_env\<lparr> auth_userId := None \<rparr>"

definition ex_query :: Query where
  "ex_query = \<lparr> q_userId = None, q_where = (\<lambda>t. True) \<rparr>"

text \<open>
  The built-in \<open>JSON.parse\<close> at the texts of the examples: the text \<open>null\<close> parses to
  \<open>null\<close>, and the other example text is no JSON, for which the built-in throws a
  \<open>SyntaxError\<close>.
\<close>

definition ex_JSON_parse :: "string \<Rightarrow> error + json" where
  "ex_JSON_parse s =
     (if s = ''null'' then Inr JNull else Inl (Error ''Unexpected token in JSON''))"

definition ex_response_text :: string where
  "ex_response_text = ''```json'' @ [CHR 0x0A] @ ''I cannot read this receipt'' @ [CHR 0x0A] @ ''```''"

text \<open>Midnight of 31 January 2024.\<close>

definition jan31_2024 :: Date where
  "jan31_2024 = MakeDate (MakeDay 2024 0 31) 0"




text \<open>Whether the injected fault falls on one of the first \<open>n\<close> statements of a batch.\<close>

definition fault_hits :: "Fault \<Rightarrow> nat \<Rightarrow> bool" where
  "fault_hits f n = (case f of None \<Rightarrow> False | Some (k, msg) \<Rightarrow> k < n)"

section \<open>Lookups and batches\<close>

lemma find_map_inv:
  "(\<And>x. P (f x) = P x) \<Longrightarrow> find P (map f xs) = map_option f (find P xs)"
  by (induction xs) auto

lemma find_weaken:
  "find P xs = Some x \<Longrightarrow> (\<And>y. P y \<Longrightarrow> Q y) \<Longrightarrow> \<exists>z. find Q xs = Some z"
  by (induction xs) (auto split: if_splits)

lemma run_two_Inr:
  "run_statements f 0 [s1, s2] db = Inr (rs, db') \<Longrightarrow>
     \<not> fault_hits f 2 \<and>
     (\<exists>r1 db1 r2. exec_statement s1 db = Inr (r1, db1) \<and> exec_statement s2 db1 = Inr (r2, db')
        \<and> rs = [r1, r2])"
  by (auto simp: fault_hits_def split: option.splits if_splits sum.splits prod.splits)

lemma run_two_ok:
  "\<not> fault_hits f 2 \<Longrightarrow> exec_statement s1 db = Inr (r1, db1) \<Longrightarrow> exec_statement s2 db1 = Inr (r2, db2) \<Longrightarrow>
   run_statements f 0 [s1, s2] db = Inr ([r1, r2], db2)"
  by (auto simp: fault_hits_def split: option.splits if_splits sum.splits prod.splits)

lemma run_two_fault:
  "fault_hits f 2 \<Longrightarrow> \<exists>e. run_statements f 0 [s1, s2] db = Inl e"
  by (auto simp: fault_hits_def less_Suc_eq numeral_2_eq_2 split: option.splits if_splits sum.splits prod.splits)

lemma account_by_id_of_findFirst:
  "account_findFirst db aid uid = Some a \<Longrightarrow> \<exists>z. account_by_id db aid = Some z"
  unfolding account_findFirst_def account_by_id_def
  by (erule find_weaken) simp


lemma account_by_id_update:
  "account_by_id (db\<lparr> accounts := update_account_rows aid upd (accounts db) \<rparr>) aid' =
     map_option (\<lambda>r. if a_id r = aid then r\<lparr> a_balance := apply_balance upd (a_balance r) \<rparr> else r)
       (account_by_id db aid')"
  unfolding account_by_id_def update_account_rows_def
  by (simp add: find_map_inv)

text \<open>What a committed create batch is.\<close>
lemma create_statements_Inr:
  assumes "dollar_transaction f (create_statements tid user account d) db = Inr (rs, db')"
  shows "\<not> fault_hits f 2 \<and>
         (\<exists>r2. rs = [TransactionRow (new_row tid (u_id user) d), r2]) \<and>
         db' = db\<lparr> transactions := transactions db @ [new_row tid (u_id user) d],
                   accounts := update_account_rows (d_accountId d)
                      (SetBalance (a_balance account + balanceChange (d_type d) (d_amount d))) (accounts db) \<rparr>"
  using run_two_Inr[OF assms[unfolded dollar_transaction_def create_statements_def Let_def]]
  by (auto simp: account_by_id_def split: option.splits)

lemma create_statements_ok:
  assumes "\<not> fault_hits f 2" "account_findFirst db (d_accountId d) (u_id user) = Some account"
  shows "\<exists>r2. dollar_transaction f (create_statements tid user account d) db =
         Inr ([TransactionRow (new_row tid (u_id user) d), r2],
           db\<lparr> transactions := transactions db @ [new_row tid (u_id user) d],
                   accounts := update_account_rows (d_accountId d)
                      (SetBalance (a_balance account + balanceChange (d_type d) (d_amount d))) (accounts db) \<rparr>)"
proof -
  obtain z where z: "account_by_id db (d_accountId d) = Some z"
    using account_by_id_of_findFirst[OF assms(2)] by blast
  show ?thesis
    unfolding dollar_transaction_def create_statements_def Let_def
    by (rule exI, rule run_two_ok[OF assms(1)]) (simp_all add: z account_by_id_def[symmetric], simp add: account_by_id_def z[unfolded account_by_id_def])
qed

lemma createTransaction_try_Inl:
  "createTransaction_try env d db = (Inl e, db') \<Longrightarrow> db' = db"
  unfolding createTransaction_try_def
  by (auto dest!: create_statements_Inr split: option.splits if_splits Decision.splits sum.splits prod.splits list.splits StatementResult.splits)

lemma createTransaction_try_Inr:
  assumes "createTransaction_try env d db = (Inr t, db')"
  shows "\<exists>user account. resolve_user env db = Inr user \<and> decision env = Allowed \<and>
           account_findFirst db (d_accountId d) (u_id user) = Some account \<and>
           \<not> fault_hits (fault env) 2 \<and>
           t = new_row (new_id env) (u_id user) d \<and>
           db' = db\<lparr> transactions := transactions db @ [t],
                   accounts := update_account_rows (d_accountId d)
                      (SetBalance (a_balance account + balanceChange (d_type d) (d_amount d))) (accounts db) \<rparr>"
  using assms unfolding createTransaction_try_def resolve_user_def
  by (auto dest!: create_statements_Inr split: option.splits if_splits Decision.splits sum.splits prod.splits list.splits StatementResult.splits)


lemma serializeAmount_id [simp]: "serializeAmount t = t"
  by (simp add: serializeAmount_def)

lemma transaction_findFirst_mem:
  "transaction_findFirst db tid uid = Some t \<Longrightarrow> t \<in> set (transactions db) \<and> t_id t = tid \<and> t_userId t = uid"
  unfolding transaction_findFirst_def by (auto simp: find_Some_iff)

lemma update_statements_Inr:
  assumes "dollar_transaction f (update_statements tid user orig d) db = Inr (rs, db')"
  shows "\<not> fault_hits f 2 \<and>
         (\<exists>t0 r2. transaction_findFirst db tid (u_id user) = Some t0 \<and>
             rs = [TransactionRow (overwrite_fields d (nextRecurringDate d) t0), r2]) \<and>
         (\<exists>z. account_by_id db (d_accountId d) = Some z) \<and>
         db' = db\<lparr> transactions :=
                     update_transaction_rows tid (u_id user) d (nextRecurringDate d) (transactions db),
                   accounts := update_account_rows (d_accountId d)
                      (IncrementBalance (netBalanceChange orig d)) (accounts db) \<rparr>"
  using run_two_Inr[OF assms[unfolded dollar_transaction_def update_statements_def]]
  by (auto simp: account_by_id_def split: option.splits)

lemma update_statements_ok:
  assumes "\<not> fault_hits f 2" "transaction_findFirst db tid (u_id user) = Some t0"
    "account_by_id db (d_accountId d) = Some z"
  shows "\<exists>r2. dollar_transaction f (update_statements tid user orig d) db =
         Inr ([TransactionRow (overwrite_fields d (nextRecurringDate d) t0), r2],
           db\<lparr> transactions :=
                     update_transaction_rows tid (u_id user) d (nextRecurringDate d) (transactions db),
                   accounts := update_account_rows (d_accountId d)
                      (IncrementBalance (netBalanceChange orig d)) (accounts db) \<rparr>)"
  unfolding dollar_transaction_def update_statements_def
  by (rule exI, rule run_two_ok[OF assms(1)])
     (simp_all add: assms(2), simp add: account_by_id_def assms(3)[unfolded account_by_id_def])

lemma updateTransaction_try_Inl:
  "updateTransaction_try env tid d db = (Inl e, db') \<Longrightarrow> db' = db"
  unfolding updateTransaction_try_def
  by (auto dest!: update_statements_Inr split: option.splits sum.splits prod.splits list.splits StatementResult.splits)

lemma updateTransaction_try_Inr:
  assumes "updateTransaction_try env tid d db = (Inr t, db')"
  shows "\<exists>user orig. resolve_user env db = Inr user \<and>
           transaction_findFirst db tid (u_id user) = Some orig \<and>
           (\<exists>z. account_by_id db (d_accountId d) = Some z) \<and>
           \<not> fault_hits (fault env) 2 \<and>
           t = overwrite_fields d (nextRecurringDate d) orig \<and>
           db' = db\<lparr> transactions :=
                     update_transaction_rows tid (u_id user) d (nextRecurringDate d) (transactions db),
                   accounts := update_account_rows (d_accountId d)
                      (IncrementBalance (netBalanceChange orig d)) (accounts db) \<rparr>"
  using assms unfolding updateTransaction_try_def
  by (auto dest!: update_statements_Inr split: option.splits sum.splits prod.splits list.splits StatementResult.splits)

lemma catch_to_result_Success [simp]:
  "catch_to_result r = Inr (Success t) \<longleftrightarrow> r = Inr t"
  by (cases r rule: catch_to_result.cases) auto

lemma catch_to_result_Failure [simp]:
  "catch_to_result r = Inr (Failure m) \<longleftrightarrow> r = Inl (Error m)"
  by (cases r rule: catch_to_result.cases) auto

lemma catch_to_result_total:
  "(\<exists>t. catch_to_result r = Inr (Success t)) \<or> (\<exists>m. catch_to_result r = Inr (Failure m))"
  by (cases r rule: catch_to_result.cases) auto

lemma createTransaction_Success:
  "createTransaction env d db = (Inr (Success t), db') \<Longrightarrow> createTransaction_try env d db = (Inr t, db')"
  unfolding createTransaction_def by (auto split: prod.splits)

lemma createTransaction_cases:
  "createTransaction env d db = (r, db') \<Longrightarrow>
     (\<exists>t. r = Inr (Success t) \<and> createTransaction_try env d db = (Inr t, db')) \<or>
     (\<exists>m. r = Inr (Failure m) \<and> createTransaction_try env d db = (Inl (Error m), db'))"
  unfolding createTransaction_def
  using catch_to_result_total[of "fst (createTransaction_try env d db)"]
  by (auto split: prod.splits)

lemma updateTransaction_Success:
  "updateTransaction env tid d db = (Inr (Success t), db') \<Longrightarrow> updateTransaction_try env tid d db = (Inr t, db')"
  unfolding updateTransaction_def by (auto split: prod.splits)

lemma updateTransaction_cases:
  "updateTransaction env tid d db = (r, db') \<Longrightarrow>
     (\<exists>t. r = Inr (Success t) \<and> updateTransaction_try env tid d db = (Inr t, db')) \<or>
     (\<exists>m. r = Inr (Failure m) \<and> updateTransaction_try env tid d db = (Inl (Error m), db'))"
  unfolding updateTransaction_def
  using catch_to_result_total[of "fst (updateTransaction_try env tid d db)"]
  by (auto split: prod.splits)

lemma account_by_id_a_id: "account_by_id db aid = Some a \<Longrightarrow> a_id a = aid"
  unfolding account_by_id_def by (auto simp: find_Some_iff)

lemma overwrite_fields_sel [simp]:
  "t_id (overwrite_fields d nrd t) = t_id t"
  "t_userId (overwrite_fields d nrd t) = t_userId t"
  "t_nextRecurringDate (overwrite_fields d nrd t) = nrd"
  "t_accountId (overwrite_fields d nrd t) = d_accountId d"
  by (simp_all add: overwrite_fields_def)

lemma update_transaction_rows_mem:
  assumes "t \<in> set rows" "t_id t = tid" "t_userId t = uid"
  shows "overwrite_fields d nrd t \<in> set (update_transaction_rows tid uid d nrd rows)"
proof -
  have "(\<lambda>r. if t_id r = tid \<and> t_userId r = uid then overwrite_fields d nrd r else r) t
          \<in> (\<lambda>r. if t_id r = tid \<and> t_userId r = uid then overwrite_fields d nrd r else r) ` set rows"
    using assms(1) by (rule imageI)
  then show ?thesis
    unfolding update_transaction_rows_def using assms(2,3) by simp
qed

lemma update_transaction_rows_written:
  assumes "r \<in> set (update_transaction_rows tid uid d nrd rows)" "t_id r = tid" "t_userId r = uid"
  shows "t_nextRecurringDate r = nrd"
proof -
  from assms(1) obtain x where x: "x \<in> set rows"
    and r: "r = (if t_id x = tid \<and> t_userId x = uid then overwrite_fields d nrd x else x)"
    unfolding update_transaction_rows_def by (auto simp only: set_map image_iff)
  from r consider (upd) "r = overwrite_fields d nrd x"
    | (same) "r = x" "\<not> (t_id x = tid \<and> t_userId x = uid)"
    by (cases "t_id x = tid \<and> t_userId x = uid") simp_all
  then show ?thesis
  proof cases
    case upd
    then show ?thesis by simp
  next
    case same
    with assms(2,3) show ?thesis by blast
  qed
qed

lemma nextRecurringDate_Some_iff:
  "nextRecurringDate d \<noteq> None \<longleftrightarrow> d_isRecurring d \<and> d_recurringInterval d \<noteq> None"
  unfolding nextRecurringDate_def by (auto split: option.splits)

lemmas ex_defs =
  ex_user_def ex_account_def ex_transaction_def ex_foreign_transaction_def ex_db_def ex_env_def
  ex_input_def ex_env_fault_def ex_move_input_def ex_env_anonymous_def ex_query_def

lemmas action_defs =
  createTransaction_def createTransaction_try_def updateTransaction_def updateTransaction_try_def
  resolve_user_def user_findFirst_def account_findFirst_def account_by_id_def
  transaction_findFirst_def dollar_transaction_def create_statements_def update_statements_def
  netBalanceChange_def new_row_def overwrite_fields_def balanceChange_def
  update_account_rows_def update_transaction_rows_def

text \<open>The example data, evaluated.\<close>

lemma ex_resolve_user: "resolve_user ex_env ex_db = Inr ex_user"
  by (simp add: ex_defs resolve_user_def user_findFirst_def)

lemma ex_find_own: "transaction_findFirst ex_db ''t1'' (u_id ex_user) = Some ex_transaction"
  by (simp add: ex_defs transaction_findFirst_def)

lemma ex_update_fst:
  "fst (updateTransaction ex_env ''t1'' ex_input ex_db) =
     Inr (Success (overwrite_fields ex_input (nextRecurringDate ex_input) ex_transaction))"
  by (simp add: ex_defs action_defs serializeAmount_def)

lemma ex_move_fst:
  "fst (updateTransaction ex_env ''t1'' ex_move_input ex_db) =
     Inr (Success (overwrite_fields ex_move_input (nextRecurringDate ex_move_input) ex_transaction))"
  by (simp add: ex_defs action_defs serializeAmount_def)

lemma ex_create_fst:
  "fst (createTransaction ex_env ex_input ex_db) = Inr (Success (new_row ''t9'' ''u1'' ex_input))"
  by (simp add: ex_defs action_defs serializeAmount_def)

lemma ex_create_fault:
  "createTransaction ex_env_fault ex_input ex_db = (Inr (Failure ''connection lost''), ex_db)"
  by (simp add: ex_defs action_defs serializeAmount_def)

lemma ex_update_fault:
  "updateTransaction ex_env_fault ''t1'' ex_input ex_db = (Inr (Failure ''connection lost''), ex_db)"
  by (simp add: ex_defs action_defs serializeAmount_def)

section \<open>Balance maintenance\<close>





text \<open>
  Claim C10. \<open>updateTransaction\<close> applies the net delta to the account of the submitted
  \<open>accountId\<close>, not to the account of the stored transaction: when the two differ, the
  account of the stored transaction is the same row before and after, whatever the
  outcome, and on success the submitted account has gained the net delta.
\<close>

theorem updateTransaction_other_account:
  assumes "updateTransaction env tid d db = (r, db')"
      and "resolve_user env db = Inr user"
      and "transaction_findFirst db tid (u_id user) = Some originalTransaction"
      and "d_accountId d \<noteq> t_accountId originalTransaction"
  shows "account_by_id db' (t_accountId originalTransaction) =
           account_by_id db (t_accountId originalTransaction) \<and>
         (\<forall>a \<in> set (accounts db). a_id a = t_accountId originalTransaction \<longrightarrow> a \<in> set (accounts db')) \<and>
         (\<forall>t account. r = Inr (Success t) \<and> account_by_id db (d_accountId d) = Some account \<longrightarrow>
            account_by_id db' (d_accountId d) =
              Some (account\<lparr> a_balance := a_balance account + netBalanceChange originalTransaction d \<rparr>))"
proof -
  from updateTransaction_cases[OF assms(1)]
  consider (ok) t where "r = Inr (Success t)" "updateTransaction_try env tid d db = (Inr t, db')"
    | (fail) m where "r = Inr (Failure m)" "updateTransaction_try env tid d db = (Inl (Error m), db')"
    by blast
  then show ?thesis
  proof cases
    case ok
    from updateTransaction_try_Inr[OF ok(2)] assms(2,3)
    have db': "db' = db\<lparr> transactions :=
                     update_transaction_rows tid (u_id user) d (nextRecurringDate d) (transactions db),
                   accounts := update_account_rows (d_accountId d)
                      (IncrementBalance (netBalanceChange originalTransaction d)) (accounts db) \<rparr>"
      by auto
    have upd: "\<And>aid. account_by_id db' aid =
       map_option (\<lambda>r. if a_id r = d_accountId d
          then r\<lparr> a_balance := apply_balance (IncrementBalance (netBalanceChange originalTransaction d)) (a_balance r) \<rparr>
          else r) (account_by_id db aid)"
      unfolding db'
      using account_by_id_update[where db = "db\<lparr> transactions :=
                     update_transaction_rows tid (u_id user) d (nextRecurringDate d) (transactions db)\<rparr>"]
      by (simp add: account_by_id_def)
    have p1: "account_by_id db' (t_accountId originalTransaction) =
           account_by_id db (t_accountId originalTransaction)"
      using assms(4) by (cases "account_by_id db (t_accountId originalTransaction)")
         (auto simp: upd dest: account_by_id_a_id)
    have p2: "\<forall>a \<in> set (accounts db). a_id a = t_accountId originalTransaction \<longrightarrow> a \<in> set (accounts db')"
    proof (intro ballI impI)
      fix a assume a: "a \<in> set (accounts db)" "a_id a = t_accountId originalTransaction"
      have "(\<lambda>r. if a_id r = d_accountId d
          then r\<lparr> a_balance := apply_balance (IncrementBalance (netBalanceChange originalTransaction d)) (a_balance r) \<rparr>
          else r) a \<in> (\<lambda>r. if a_id r = d_accountId d
          then r\<lparr> a_balance := apply_balance (IncrementBalance (netBalanceChange originalTransaction d)) (a_balance r) \<rparr>
          else r) ` set (accounts db)"
        using a(1) by (rule imageI)
      then have "(\<lambda>r. if a_id r = d_accountId d
          then r\<lparr> a_balance := apply_balance (IncrementBalance (netBalanceChange originalTransaction d)) (a_balance r) \<rparr>
          else r) a \<in> set (accounts db')"
        unfolding db' update_account_rows_def by simp
      then show "a \<in> set (accounts db')" using a(2) assms(4) by simp
    qed
    have p3: "\<forall>t account. r = Inr (Success t) \<and> account_by_id db (d_accountId d) = Some account \<longrightarrow>
            account_by_id db' (d_accountId d) =
              Some (account\<lparr> a_balance := a_balance account + netBalanceChange originalTransaction d \<rparr>)"
      by (auto simp: upd dest: account_by_id_a_id)
    show ?thesis by (intro conjI p1 p2 p3)
  next
    case fail
    from updateTransaction_try_Inl[OF fail(2)] have "db' = db" .
    with fail(1) show ?thesis by simp
  qed
qed

theorem updateTransaction_other_account_witness:
  "updateTransaction ex_env ''t1'' ex_move_input ex_db =
     (Inr (Success (overwrite_fields ex_move_input (nextRecurringDate ex_move_input) ex_transaction)),
      snd (updateTransaction ex_env ''t1'' ex_move_input ex_db)) \<and>
   resolve_user ex_env ex_db = Inr ex_user \<and>
   transaction_findFirst ex_db ''t1'' (u_id ex_user) = Some ex_transaction \<and>
   d_accountId ex_move_input \<noteq> t_accountId ex_transaction \<and>
   account_by_id (snd (updateTransaction ex_env ''t1'' ex_move_input ex_db)) (t_accountId ex_transaction) =
     account_by_id ex_db (t_accountId ex_transaction) \<and>
   account_by_id ex_db (t_accountId ex_transaction) = Some ex_account"
proof -
  have h1: "updateTransaction ex_env ''t1'' ex_move_input ex_db =
     (Inr (Success (overwrite_fields ex_move_input (nextRecurringDate ex_move_input) ex_transaction)),
      snd (updateTransaction ex_env ''t1'' ex_move_input ex_db))"
    using ex_move_fst by (simp add: prod_eq_iff)
  have h4: "d_accountId ex_move_input \<noteq> t_accountId ex_transaction"
    by (simp add: ex_defs)
  have c: "account_by_id (snd (updateTransaction ex_env ''t1'' ex_move_input ex_db)) (t_accountId ex_transaction) =
     account_by_id ex_db (t_accountId ex_transaction)"
    by (rule updateTransaction_other_account[OF h1 ex_resolve_user ex_find_own h4, THEN conjunct1])
  have a: "account_by_id ex_db (t_accountId ex_transaction) = Some ex_account"
    by (simp add: ex_defs account_by_id_def)
  show ?thesis by (intro conjI h1 ex_resolve_user ex_find_own h4 c a)
qed

section \<open>The recurring date of a written row\<close>

text \<open>
  Claim C4. A row written by \<open>createTransaction\<close> or \<open>updateTransaction\<close> has a
  \<open>nextRecurringDate\<close> if and only if the submitted \<open>isRecurring\<close> is true and a
  \<open>recurringInterval\<close> is set; otherwise the field is null. For a creation the row is the
  returned one, which is in the table; for an update the rows are those with the id and
  the owner of the returned one.
\<close>

theorem nextRecurringDate_iff:
  "(createTransaction env d db = (Inr (Success t), db') \<longrightarrow>
      t \<in> set (transactions db') \<and>
      (t_nextRecurringDate t \<noteq> None \<longleftrightarrow> d_isRecurring d \<and> d_recurringInterval d \<noteq> None)) \<and>
   (updateTransaction env tid d db = (Inr (Success t2), db2) \<longrightarrow>
      t2 \<in> set (transactions db2) \<and> t_id t2 = tid \<and>
      (\<forall>r \<in> set (transactions db2). t_id r = tid \<and> t_userId r = t_userId t2 \<longrightarrow>
         (t_nextRecurringDate r \<noteq> None \<longleftrightarrow> d_isRecurring d \<and> d_recurringInterval d \<noteq> None)))"
proof (intro conjI impI)
  assume a: "createTransaction env d db = (Inr (Success t), db')"
  from createTransaction_try_Inr[OF createTransaction_Success[OF a]]
  obtain user :: User and account :: Account where t: "t = new_row (new_id env) (u_id user) d"
    and db': "db' = db\<lparr> transactions := transactions db @ [t],
                   accounts := update_account_rows (d_accountId d)
                      (SetBalance (a_balance account + balanceChange (d_type d) (d_amount d))) (accounts db) \<rparr>"
    by blast
  show "t \<in> set (transactions db')" by (subst db') simp
  show "t_nextRecurringDate t \<noteq> None \<longleftrightarrow> d_isRecurring d \<and> d_recurringInterval d \<noteq> None"
    unfolding t new_row_def using nextRecurringDate_Some_iff[of d] by simp
next
  assume a: "updateTransaction env tid d db = (Inr (Success t2), db2)"
  from updateTransaction_try_Inr[OF updateTransaction_Success[OF a]]
  obtain user :: User and orig where orig: "transaction_findFirst db tid (u_id user) = Some orig"
    and t2: "t2 = overwrite_fields d (nextRecurringDate d) orig"
    and db2': "db2 = db\<lparr> transactions :=
                     update_transaction_rows tid (u_id user) d (nextRecurringDate d) (transactions db),
                   accounts := update_account_rows (d_accountId d)
                      (IncrementBalance (netBalanceChange orig d)) (accounts db) \<rparr>"
    by blast
  have db2: "transactions db2 =
       update_transaction_rows tid (u_id user) d (nextRecurringDate d) (transactions db)"
    by (simp add: db2')
  note m = transaction_findFirst_mem[OF orig]
  show "t2 \<in> set (transactions db2)"
    unfolding t2 db2 using m by (auto intro: update_transaction_rows_mem)
  show "t_id t2 = tid" unfolding t2 using m by simp
  have uid: "t_userId t2 = u_id user" unfolding t2 using m by simp
  show "\<forall>r \<in> set (transactions db2). t_id r = tid \<and> t_userId r = t_userId t2 \<longrightarrow>
         (t_nextRecurringDate r \<noteq> None \<longleftrightarrow> d_isRecurring d \<and> d_recurringInterval d \<noteq> None)"
    unfolding db2 uid
    using update_transaction_rows_written[of _ tid "u_id user" d "nextRecurringDate d" "transactions db"]
      nextRecurringDate_Some_iff[of d]
    by (intro ballI impI) (elim conjE, simp)
qed

theorem nextRecurringDate_iff_witness:
  "createTransaction ex_env ex_input ex_db =
     (Inr (Success (new_row ''t9'' ''u1'' ex_input)), snd (createTransaction ex_env ex_input ex_db)) \<and>
   new_row ''t9'' ''u1'' ex_input \<in> set (transactions (snd (createTransaction ex_env ex_input ex_db))) \<and>
   (t_nextRecurringDate (new_row ''t9'' ''u1'' ex_input) \<noteq> None) =
     (d_isRecurring ex_input \<and> d_recurringInterval ex_input \<noteq> None) \<and>
   d_isRecurring ex_input \<and> d_recurringInterval ex_input = Some MONTHLY \<and>
   updateTransaction ex_env ''t1'' ex_input ex_db =
     (Inr (Success (overwrite_fields ex_input (nextRecurringDate ex_input) ex_transaction)),
      snd (updateTransaction ex_env ''t1'' ex_input ex_db)) \<and>
   overwrite_fields ex_input (nextRecurringDate ex_input) ex_transaction
     \<in> set (transactions (snd (updateTransaction ex_env ''t1'' ex_input ex_db)))"
proof -
  have h1: "createTransaction ex_env ex_input ex_db =
     (Inr (Success (new_row ''t9'' ''u1'' ex_input)), snd (createTransaction ex_env ex_input ex_db))"
    using ex_create_fst by (simp add: prod_eq_iff)
  have h2: "updateTransaction ex_env ''t1'' ex_input ex_db =
     (Inr (Success (overwrite_fields ex_input (nextRecurringDate ex_input) ex_transaction)),
      snd (updateTransaction ex_env ''t1'' ex_input ex_db))"
    using ex_update_fst by (simp add: prod_eq_iff)
  note inst = nextRecurringDate_iff[of ex_env ex_input ex_db "new_row ''t9'' ''u1'' ex_input"
      "snd (createTransaction ex_env ex_input ex_db)" "''t1''"
      "overwrite_fields ex_input (nextRecurringDate ex_input) ex_transaction"
      "snd (updateTransaction ex_env ''t1'' ex_input ex_db)"]
  note c = inst[THEN conjunct1, THEN mp, OF h1]
  note u = inst[THEN conjunct2, THEN mp, OF h2]
  have r: "d_isRecurring ex_input" "d_recurringInterval ex_input = Some MONTHLY"
    by (simp_all add: ex_defs)
  show ?thesis
    by (intro conjI h1 c[THEN conjunct1] c[THEN conjunct2] r h2 u[THEN conjunct1])
qed

section \<open>Ownership\<close>

text \<open>
  Claim C6. For a resolved user and a transaction id that no row of this user carries
  (the id does not exist, or every row with it belongs to someone else),
  \<open>getTransaction\<close> throws \<open>Transaction not found\<close> and \<open>updateTransaction\<close> returns the failure
  with the same message and leaves the database as it was. The two cases give the same
  error.
\<close>

theorem foreign_transaction_not_found:
  assumes "resolve_user env db = Inr user"
      and "\<forall>t \<in> set (transactions db). t_id t = tid \<longrightarrow> t_userId t \<noteq> u_id user"
  shows "getTransaction env tid db = Inl (Error ''Transaction not found'') \<and>
         updateTransaction env tid d db = (Inr (Failure ''Transaction not found''), db)"
proof -
  have "transaction_findFirst db tid (u_id user) = None"
    unfolding transaction_findFirst_def using assms(2) by (auto simp: find_None_iff)
  then show ?thesis
    using assms(1)
    by (simp add: getTransaction_def updateTransaction_def updateTransaction_try_def)
qed

theorem foreign_transaction_not_found_witness:
  "resolve_user ex_env ex_db = Inr ex_user \<and>
   ex_foreign_transaction \<in> set (transactions ex_db) \<and>
   t_id ex_foreign_transaction = ''t2'' \<and> t_userId ex_foreign_transaction \<noteq> u_id ex_user \<and>
   filter (\<lambda>t. t_id t = ''t2'' \<and> t_userId t = u_id ex_user) (transactions ex_db) = [] \<and>
   getTransaction ex_env ''t2'' ex_db = Inl (Error ''Transaction not found'') \<and>
   updateTransaction ex_env ''t2'' ex_input ex_db = (Inr (Failure ''Transaction not found''), ex_db)"
proof -
  have m: "ex_foreign_transaction \<in> set (transactions ex_db)"
    "t_id ex_foreign_transaction = ''t2''" "t_userId ex_foreign_transaction \<noteq> u_id ex_user"
    "filter (\<lambda>t. t_id t = ''t2'' \<and> t_userId t = u_id ex_user) (transactions ex_db) = []"
    by (simp_all add: ex_defs)
  have h2: "\<forall>t \<in> set (transactions ex_db). t_id t = ''t2'' \<longrightarrow> t_userId t \<noteq> u_id ex_user"
    by (simp add: ex_defs)
  note c = foreign_transaction_not_found[OF ex_resolve_user h2, of ex_input]
  show ?thesis by (intro conjI ex_resolve_user m c[THEN conjunct1] c[THEN conjunct2])
qed

section \<open>Atomicity of the dual write\<close>

text \<open>
  Claim C3. In \<open>createTransaction\<close> and \<open>updateTransaction\<close> the write of the transaction
  row and the write of the account balance take effect together or not at all. Either
  the action returns a failure and the database is the one it started from (this covers
  every guard and a failure of either statement of the batch), or it returns success, no
  statement of the batch was hit by a fault, and the new database has both the row and
  the balance written and nothing else changed.
\<close>

theorem mutations_all_or_nothing:
  "(createTransaction env d db = (r, db') \<longrightarrow>
      (\<exists>m. r = Inr (Failure m) \<and> db' = db) \<or>
      (\<exists>t user account. r = Inr (Success t) \<and> \<not> fault_hits (fault env) 2 \<and>
          resolve_user env db = Inr user \<and>
          account_findFirst db (d_accountId d) (u_id user) = Some account \<and>
          t = new_row (new_id env) (u_id user) d \<and>
          transactions db' = transactions db @ [t] \<and>
          accounts db' = update_account_rows (d_accountId d)
             (SetBalance (a_balance account + balanceChange (d_type d) (d_amount d))) (accounts db) \<and>
          users db' = users db)) \<and>
   (updateTransaction env tid d db = (r2, db2) \<longrightarrow>
      (\<exists>m. r2 = Inr (Failure m) \<and> db2 = db) \<or>
      (\<exists>t user orig. r2 = Inr (Success t) \<and> \<not> fault_hits (fault env) 2 \<and>
          resolve_user env db = Inr user \<and>
          transaction_findFirst db tid (u_id user) = Some orig \<and>
          t = overwrite_fields d (nextRecurringDate d) orig \<and>
          transactions db2 =
            update_transaction_rows tid (u_id user) d (nextRecurringDate d) (transactions db) \<and>
          accounts db2 = update_account_rows (d_accountId d)
             (IncrementBalance (netBalanceChange orig d)) (accounts db) \<and>
          users db2 = users db))"
proof (intro conjI impI)
  assume a: "createTransaction env d db = (r, db')"
  from createTransaction_cases[OF a]
  consider (ok) t where "r = Inr (Success t)" "createTransaction_try env d db = (Inr t, db')"
    | (fail) m where "r = Inr (Failure m)" "createTransaction_try env d db = (Inl (Error m), db')"
    by blast
  then show "(\<exists>m. r = Inr (Failure m) \<and> db' = db) \<or>
      (\<exists>t user account. r = Inr (Success t) \<and> \<not> fault_hits (fault env) 2 \<and>
          resolve_user env db = Inr user \<and>
          account_findFirst db (d_accountId d) (u_id user) = Some account \<and>
          t = new_row (new_id env) (u_id user) d \<and>
          transactions db' = transactions db @ [t] \<and>
          accounts db' = update_account_rows (d_accountId d)
             (SetBalance (a_balance account + balanceChange (d_type d) (d_amount d))) (accounts db) \<and>
          users db' = users db)"
  proof cases
    case ok
    from createTransaction_try_Inr[OF ok(2)]
    obtain user :: User and account :: Account where
      f: "resolve_user env db = Inr user" "\<not> fault_hits (fault env) 2"
         "account_findFirst db (d_accountId d) (u_id user) = Some account"
         "t = new_row (new_id env) (u_id user) d"
      and db': "db' = db\<lparr> transactions := transactions db @ [t],
                   accounts := update_account_rows (d_accountId d)
                      (SetBalance (a_balance account + balanceChange (d_type d) (d_amount d))) (accounts db) \<rparr>"
      by blast
    have "transactions db' = transactions db @ [t]"
      "accounts db' = update_account_rows (d_accountId d)
             (SetBalance (a_balance account + balanceChange (d_type d) (d_amount d))) (accounts db)"
      "users db' = users db"
      by (simp_all add: db')
    with ok(1) f show ?thesis by blast
  next
    case fail
    from createTransaction_try_Inl[OF fail(2)] fail(1) show ?thesis by blast
  qed
next
  assume a: "updateTransaction env tid d db = (r2, db2)"
  from updateTransaction_cases[OF a]
  consider (ok) t where "r2 = Inr (Success t)" "updateTransaction_try env tid d db = (Inr t, db2)"
    | (fail) m where "r2 = Inr (Failure m)" "updateTransaction_try env tid d db = (Inl (Error m), db2)"
    by blast
  then show "(\<exists>m. r2 = Inr (Failure m) \<and> db2 = db) \<or>
      (\<exists>t user orig. r2 = Inr (Success t) \<and> \<not> fault_hits (fault env) 2 \<and>
          resolve_user env db = Inr user \<and>
          transaction_findFirst db tid (u_id user) = Some orig \<and>
          t = overwrite_fields d (nextRecurringDate d) orig \<and>
          transactions db2 =
            update_transaction_rows tid (u_id user) d (nextRecurringDate d) (transactions db) \<and>
          accounts db2 = update_account_rows (d_accountId d)
             (IncrementBalance (netBalanceChange orig d)) (accounts db) \<and>
          users db2 = users db)"
  proof cases
    case ok
    from updateTransaction_try_Inr[OF ok(2)]
    obtain user :: User and orig where
      f: "resolve_user env db = Inr user" "\<not> fault_hits (fault env) 2"
         "transaction_findFirst db tid (u_id user) = Some orig"
         "t = overwrite_fields d (nextRecurringDate d) orig"
      and db2: "db2 = db\<lparr> transactions :=
                     update_transaction_rows tid (u_id user) d (nextRecurringDate d) (transactions db),
                   accounts := update_account_rows (d_accountId d)
                      (IncrementBalance (netBalanceChange orig d)) (accounts db) \<rparr>"
      by blast
    have "transactions db2 =
            update_transaction_rows tid (u_id user) d (nextRecurringDate d) (transactions db)"
      "accounts db2 = update_account_rows (d_accountId d)
             (IncrementBalance (netBalanceChange orig d)) (accounts db)"
      "users db2 = users db"
      by (simp_all add: db2)
    with ok(1) f show ?thesis by blast
  next
    case fail
    from updateTransaction_try_Inl[OF fail(2)] fail(1) show ?thesis by blast
  qed
qed

theorem mutations_all_or_nothing_witness:
  "createTransaction ex_env_fault ex_input ex_db = (Inr (Failure ''connection lost''), ex_db) \<and>
   ((\<exists>m. (Inr (Failure ''connection lost'') :: error + Transaction result) = Inr (Failure m) \<and> ex_db = ex_db) \<or>
      (\<exists>t user account. (Inr (Failure ''connection lost'') :: error + Transaction result) = Inr (Success t) \<and>
          \<not> fault_hits (fault ex_env_fault) 2 \<and>
          resolve_user ex_env_fault ex_db = Inr user \<and>
          account_findFirst ex_db (d_accountId ex_input) (u_id user) = Some account \<and>
          t = new_row (new_id ex_env_fault) (u_id user) ex_input \<and>
          transactions ex_db = transactions ex_db @ [t] \<and>
          accounts ex_db = update_account_rows (d_accountId ex_input)
             (SetBalance (a_balance account + balanceChange (d_type ex_input) (d_amount ex_input)))
             (accounts ex_db) \<and>
          users ex_db = users ex_db)) \<and>
   updateTransaction ex_env_fault ''t1'' ex_input ex_db = (Inr (Failure ''connection lost''), ex_db) \<and>
   ((\<exists>m. (Inr (Failure ''connection lost'') :: error + Transaction result) = Inr (Failure m) \<and> ex_db = ex_db) \<or>
      (\<exists>t user orig. (Inr (Failure ''connection lost'') :: error + Transaction result) = Inr (Success t) \<and>
          \<not> fault_hits (fault ex_env_fault) 2 \<and>
          resolve_user ex_env_fault ex_db = Inr user \<and>
          transaction_findFirst ex_db ''t1'' (u_id user) = Some orig \<and>
          t = overwrite_fields ex_input (nextRecurringDate ex_input) orig \<and>
          transactions ex_db =
            update_transaction_rows ''t1'' (u_id user) ex_input (nextRecurringDate ex_input)
              (transactions ex_db) \<and>
          accounts ex_db = update_account_rows (d_accountId ex_input)
             (IncrementBalance (netBalanceChange orig ex_input)) (accounts ex_db) \<and>
          users ex_db = users ex_db))"
proof -
  note inst = mutations_all_or_nothing[of ex_env_fault ex_input ex_db "Inr (Failure ''connection lost'')" ex_db
      "''t1''" "Inr (Failure ''connection lost'')" ex_db]
  have c: "((\<exists>m. (Inr (Failure ''connection lost'') :: error + Transaction result) = Inr (Failure m) \<and> ex_db = ex_db) \<or>
      (\<exists>t user account. (Inr (Failure ''connection lost'') :: error + Transaction result) = Inr (Success t) \<and>
          \<not> fault_hits (fault ex_env_fault) 2 \<and>
          resolve_user ex_env_fault ex_db = Inr user \<and>
          account_findFirst ex_db (d_accountId ex_input) (u_id user) = Some account \<and>
          t = new_row (new_id ex_env_fault) (u_id user) ex_input \<and>
          transactions ex_db = transactions ex_db @ [t] \<and>
          accounts ex_db = update_account_rows (d_accountId ex_input)
             (SetBalance (a_balance account + balanceChange (d_type ex_input) (d_amount ex_input)))
             (accounts ex_db) \<and>
          users ex_db = users ex_db))"
    by (rule inst[THEN conjunct1, THEN mp, OF ex_create_fault])
  have u: "((\<exists>m. (Inr (Failure ''connection lost'') :: error + Transaction result) = Inr (Failure m) \<and> ex_db = ex_db) \<or>
      (\<exists>t user orig. (Inr (Failure ''connection lost'') :: error + Transaction result) = Inr (Success t) \<and>
          \<not> fault_hits (fault ex_env_fault) 2 \<and>
          resolve_user ex_env_fault ex_db = Inr user \<and>
          transaction_findFirst ex_db ''t1'' (u_id user) = Some orig \<and>
          t = overwrite_fields ex_input (nextRecurringDate ex_input) orig \<and>
          transactions ex_db =
            update_transaction_rows ''t1'' (u_id user) ex_input (nextRecurringDate ex_input)
              (transactions ex_db) \<and>
          accounts ex_db = update_account_rows (d_accountId ex_input)
             (IncrementBalance (netBalanceChange orig ex_input)) (accounts ex_db) \<and>
          users ex_db = users ex_db))"
    by (rule inst[THEN conjunct2, THEN mp, OF ex_update_fault])
  show ?thesis by (intro conjI ex_create_fault c ex_update_fault u)
qed

section \<open>The recurring-date calculator\<close>

text \<open>
  Setting the day of the month to the current one plus \<open>k\<close> moves the time value by \<open>k\<close>
  days, so the DAILY and WEEKLY cases add one day and seven days, and \<open>subDays\<close> takes
  days off.
\<close>

lemma MonthFromTime_range: "0 \<le> MonthFromTime t \<and> MonthFromTime t \<le> 11"
  unfolding MonthFromTime_def Let_def by simp

lemma MakeDay_same_month:
  "MakeDay (YearFromTime t) (MonthFromTime t) (DateFromTime t + k) = Day t + k"
proof -
  have d: "MonthFromTime t div 12 = 0" and m: "MonthFromTime t mod 12 = MonthFromTime t"
    using MonthFromTime_range[of t] by simp_all
  show ?thesis
    unfolding MakeDay_def Let_def d m DateFromTime_def DayWithinYear_def InLeapYear_def
    by simp
qed

lemma setDate_add: "setDate t (getDate t + k) = t + k * msPerDay"
proof -
  have "setDate t (getDate t + k) = (Day t + k) * msPerDay + TimeWithinDay t"
    unfolding setDate_def getDate_def MakeDate_def MakeDay_same_month ..
  also have "\<dots> = t + k * msPerDay"
    unfolding Day_def TimeWithinDay_def by (simp add: algebra_simps)
  finally show ?thesis .
qed


lemma calculateNextRecurringDate_days:
  "calculateNextRecurringDate startDate DAILY = startDate + msPerDay"
  "calculateNextRecurringDate startDate WEEKLY = startDate + 7 * msPerDay"
  by (simp_all add: setDate_add)

lemmas date_defs =
  MakeDate_def MakeDay_def msPerDay_def Day_def TimeWithinDay_def DaysInYear_def DayFromYear_def
  YearFromDay_def YearFromTime_def InLeapYear_def DayWithinYear_def monthStart_def
  MonthFromTime_def DateFromTime_def getFullYear_def getMonth_def getDate_def setMonth_def setFullYear_def

text \<open>The same carry in the YEARLY case: from 29 February 2024 the result is 1 March 2025.\<close>

lemma yearly_from_feb29:
  "getFullYear 1709164800000 = 2024 \<and> getMonth 1709164800000 = 1 \<and> getDate 1709164800000 = 29 \<and>
   getFullYear (calculateNextRecurringDate 1709164800000 YEARLY) = 2025 \<and>
   getMonth (calculateNextRecurringDate 1709164800000 YEARLY) = 2 \<and>
   getDate (calculateNextRecurringDate 1709164800000 YEARLY) = 1"
proof -
  have r: "calculateNextRecurringDate 1709164800000 YEARLY = 1740787200000"
    by (simp add: date_defs)
  show ?thesis unfolding r by (simp add: date_defs)
qed

text \<open>
  Claim C5. The claim is that the calculator returns start + 1 day for DAILY, start + 7
  days for WEEKLY, start + 1 calendar month for MONTHLY and start + 1 calendar year for
  YEARLY, and that for 31 January 2024 and MONTHLY the result is a valid date in
  February. The DAILY and WEEKLY parts hold (\<open>calculateNextRecurringDate_days\<close>). The
  MONTHLY case sets the month to the next one and keeps the day of the month, and
  \<open>setMonth\<close> lets a day past the end of the month run on: from 31 January 2024 the result
  is 2 March 2024, a date in March, and the monthly recurrence passes over February.
\<close>

theorem monthly_from_jan31_is_in_march:
  "getFullYear jan31_2024 = 2024 \<and> getMonth jan31_2024 = 0 \<and> getDate jan31_2024 = 31 \<and>
   getFullYear (calculateNextRecurringDate jan31_2024 MONTHLY) = 2024 \<and>
   getMonth (calculateNextRecurringDate jan31_2024 MONTHLY) = 2 \<and>
   getDate (calculateNextRecurringDate jan31_2024 MONTHLY) = 2 \<and>
   getMonth (calculateNextRecurringDate jan31_2024 MONTHLY) \<noteq> 1"
proof -
  have i: "jan31_2024 = 1706659200000"
    by (simp add: jan31_2024_def date_defs)
  have r: "calculateNextRecurringDate jan31_2024 MONTHLY = 1709337600000"
    unfolding i by (simp add: date_defs)
  show ?thesis unfolding r unfolding i by (simp add: date_defs)
qed

section \<open>Error boundaries\<close>

lemma getUserTransactions_total:
  "(\<exists>rows. getUserTransactions env query db = Inr (Success rows)) \<or>
   (\<exists>m. getUserTransactions env query db = Inr (Failure m))"
proof (cases "resolve_user env db")
  case (Inl e)
  then show ?thesis by (cases e) (simp add: getUserTransactions_def)
next
  case (Inr user)
  then show ?thesis by (simp add: getUserTransactions_def)
qed

lemma ex_anonymous:
  "resolve_user ex_env_anonymous ex_db = Inl (Error ''Unauthorized'')"
  "createTransaction_try ex_env_anonymous ex_input ex_db = (Inl (Error ''Unauthorized''), ex_db)"
  "updateTransaction_try ex_env_anonymous ''t1'' ex_input ex_db = (Inl (Error ''Unauthorized''), ex_db)"
  by (simp_all add: ex_defs resolve_user_def createTransaction_try_def updateTransaction_try_def)

text \<open>
  Claim C7 says that the mutations return the failure object while every query operation
  throws its failures again. \<open>getUserTransactions\<close> is a query operation whose \<open>catch\<close>
  returns the failure object: with no signed-in user the failure \<open>Unauthorized\<close> comes back
  as a returned value, not as a thrown error.
\<close>

theorem getUserTransactions_returns_failure:
  "resolve_user ex_env_anonymous ex_db = Inl (Error ''Unauthorized'') \<and>
   getUserTransactions ex_env_anonymous ex_query ex_db = Inr (Failure ''Unauthorized'') \<and>
   getUserTransactions ex_env_anonymous ex_query ex_db \<noteq> Inl (Error ''Unauthorized'')"
  by (simp add: ex_defs getUserTransactions_def resolve_user_def)

text \<open>
  Claim C7, amended. \<open>createTransaction\<close>, \<open>updateTransaction\<close> and the query
  \<open>getUserTransactions\<close> never throw: each resolves with success or with the failure
  object \<open>{ success: false, error: message }\<close> carrying the message of the error thrown
  inside. \<open>getTransaction\<close> throws its failures to the caller: the error of the identity
  resolver as it is, and \<open>Transaction not found\<close> when no row matches.
\<close>

theorem error_boundaries:
  "((\<exists>t. fst (createTransaction env d db) = Inr (Success t)) \<or>
    (\<exists>m. fst (createTransaction env d db) = Inr (Failure m))) \<and>
   (createTransaction_try env d db = (Inl (Error m), db') \<longrightarrow>
      createTransaction env d db = (Inr (Failure m), db')) \<and>
   ((\<exists>t. fst (updateTransaction env tid d db) = Inr (Success t)) \<or>
    (\<exists>m. fst (updateTransaction env tid d db) = Inr (Failure m))) \<and>
   (updateTransaction_try env tid d db = (Inl (Error m), db') \<longrightarrow>
      updateTransaction env tid d db = (Inr (Failure m), db')) \<and>
   ((\<exists>rows. getUserTransactions env query db = Inr (Success rows)) \<or>
    (\<exists>m. getUserTransactions env query db = Inr (Failure m))) \<and>
   (resolve_user env db = Inl (Error m) \<longrightarrow>
      getUserTransactions env query db = Inr (Failure m)) \<and>
   (resolve_user env db = Inl e \<longrightarrow> getTransaction env tid db = Inl e) \<and>
   (resolve_user env db = Inr user \<and> transaction_findFirst db tid (u_id user) = None \<longrightarrow>
      getTransaction env tid db = Inl (Error ''Transaction not found''))"
proof (intro conjI impI)
  show "(\<exists>t. fst (createTransaction env d db) = Inr (Success t)) \<or>
    (\<exists>m. fst (createTransaction env d db) = Inr (Failure m))"
    using catch_to_result_total[of "fst (createTransaction_try env d db)"]
    by (cases "createTransaction_try env d db") (simp add: createTransaction_def)
  show "(\<exists>t. fst (updateTransaction env tid d db) = Inr (Success t)) \<or>
    (\<exists>m. fst (updateTransaction env tid d db) = Inr (Failure m))"
    using catch_to_result_total[of "fst (updateTransaction_try env tid d db)"]
    by (cases "updateTransaction_try env tid d db") (simp add: updateTransaction_def)
  show "(\<exists>rows. getUserTransactions env query db = Inr (Success rows)) \<or>
    (\<exists>m. getUserTransactions env query db = Inr (Failure m))"
    by (rule getUserTransactions_total)
next
  assume "createTransaction_try env d db = (Inl (Error m), db')"
  then show "createTransaction env d db = (Inr (Failure m), db')"
    by (simp add: createTransaction_def)
next
  assume "updateTransaction_try env tid d db = (Inl (Error m), db')"
  then show "updateTransaction env tid d db = (Inr (Failure m), db')"
    by (simp add: updateTransaction_def)
next
  assume "resolve_user env db = Inl (Error m)"
  then show "getUserTransactions env query db = Inr (Failure m)"
    by (simp add: getUserTransactions_def)
next
  assume "resolve_user env db = Inl e"
  then show "getTransaction env tid db = Inl e"
    by (simp add: getTransaction_def)
next
  assume "resolve_user env db = Inr user \<and> transaction_findFirst db tid (u_id user) = None"
  then show "getTransaction env tid db = Inl (Error ''Transaction not found'')"
    by (simp add: getTransaction_def)
qed

theorem error_boundaries_witness:
  "createTransaction_try ex_env_anonymous ex_input ex_db = (Inl (Error ''Unauthorized''), ex_db) \<and>
   createTransaction ex_env_anonymous ex_input ex_db = (Inr (Failure ''Unauthorized''), ex_db) \<and>
   updateTransaction_try ex_env_anonymous ''t1'' ex_input ex_db = (Inl (Error ''Unauthorized''), ex_db) \<and>
   updateTransaction ex_env_anonymous ''t1'' ex_input ex_db = (Inr (Failure ''Unauthorized''), ex_db) \<and>
   resolve_user ex_env_anonymous ex_db = Inl (Error ''Unauthorized'') \<and>
   getUserTransactions ex_env_anonymous ex_query ex_db = Inr (Failure ''Unauthorized'') \<and>
   getTransaction ex_env_anonymous ''t1'' ex_db = Inl (Error ''Unauthorized'') \<and>
   resolve_user ex_env ex_db = Inr ex_user \<and>
   transaction_findFirst ex_db ''t2'' (u_id ex_user) = None \<and>
   getTransaction ex_env ''t2'' ex_db = Inl (Error ''Transaction not found'')"
proof -
  note a = error_boundaries[of ex_env_anonymous ex_input ex_db "''Unauthorized''" ex_db "''t1''" ex_query
      "Error ''Unauthorized''" ex_user]
  note b = error_boundaries[of ex_env ex_input ex_db "''Unauthorized''" ex_db "''t2''" ex_query
      "Error ''Unauthorized''" ex_user]
  have nf: "transaction_findFirst ex_db ''t2'' (u_id ex_user) = None"
    by (simp add: ex_defs transaction_findFirst_def)
  have c1: "createTransaction ex_env_anonymous ex_input ex_db = (Inr (Failure ''Unauthorized''), ex_db)"
    by (rule a[THEN conjunct2, THEN conjunct1, THEN mp, OF ex_anonymous(2)])
  have c2: "updateTransaction ex_env_anonymous ''t1'' ex_input ex_db = (Inr (Failure ''Unauthorized''), ex_db)"
    by (rule a[THEN conjunct2, THEN conjunct2, THEN conjunct2, THEN conjunct1, THEN mp, OF ex_anonymous(3)])
  have c3: "getUserTransactions ex_env_anonymous ex_query ex_db = Inr (Failure ''Unauthorized'')"
    by (rule a[THEN conjunct2, THEN conjunct2, THEN conjunct2, THEN conjunct2, THEN conjunct2,
          THEN conjunct1, THEN mp, OF ex_anonymous(1)])
  have c4: "getTransaction ex_env_anonymous ''t1'' ex_db = Inl (Error ''Unauthorized'')"
    by (rule a[THEN conjunct2, THEN conjunct2, THEN conjunct2, THEN conjunct2, THEN conjunct2,
          THEN conjunct2, THEN conjunct1, THEN mp, OF ex_anonymous(1)])
  have c5: "getTransaction ex_env ''t2'' ex_db = Inl (Error ''Transaction not found'')"
    by (rule b[THEN conjunct2, THEN conjunct2, THEN conjunct2, THEN conjunct2, THEN conjunct2,
          THEN conjunct2, THEN conjunct2, THEN mp, OF conjI[OF ex_resolve_user nf]])
  show ?thesis
    by (intro conjI ex_anonymous(2) c1 ex_anonymous(3) c2 ex_anonymous(1) c3 c4 ex_resolve_user nf c5)
qed

section \<open>The receipt extraction adapter: errors\<close>

lemma ex_cleaned: "trim (strip_fences ex_response_text) = ''I cannot read this receipt''"
  by (simp add: ex_response_text_def trim_def after_fence_def drop_prefix_def is_space_def)

lemma scanReceipt_errors:
  "scanReceipt response JSON_parse = Inl e \<Longrightarrow> e = Error ''Failed to process receipt''"
  unfolding scanReceipt_def by (auto split: sum.splits)

text \<open>
  Claim C8. The claim is that an unparseable response makes the operation fail with
  \<open>Invalid receipt format\<close> and a transport or model error with the distinct
  \<open>Failed to process receipt\<close>. The inner \<open>try\<close> does throw \<open>Invalid receipt format\<close> on
  an unparseable text, but it stands inside the outer \<open>try\<close>, whose \<open>catch\<close> replaces every
  error: the operation fails with \<open>Failed to process receipt\<close> in this case too, and
  never with \<open>Invalid receipt format\<close>.
\<close>

theorem scanReceipt_masks_invalid_format:
  assumes "JSON_parse (trim (strip_fences response_text)) = Inl e"
  shows "scanReceipt_parse JSON_parse (trim (strip_fences response_text)) = Inl (Error ''Invalid receipt format'') \<and>
         scanReceipt (Inr response_text) JSON_parse = Inl (Error ''Failed to process receipt'') \<and>
         scanReceipt (Inr response_text) JSON_parse \<noteq> Inl (Error ''Invalid receipt format'')"
proof -
  have inner: "scanReceipt_parse JSON_parse (trim (strip_fences response_text)) = Inl (Error ''Invalid receipt format'')"
    using assms by (simp add: scanReceipt_parse_def)
  then have outer: "scanReceipt (Inr response_text) JSON_parse = Inl (Error ''Failed to process receipt'')"
    by (simp add: scanReceipt_def)
  then have "scanReceipt (Inr response_text) JSON_parse \<noteq> Inl (Error ''Invalid receipt format'')"
    by simp
  with inner outer show ?thesis by blast
qed

theorem scanReceipt_masks_invalid_format_witness:
  "ex_JSON_parse (trim (strip_fences ex_response_text)) = Inl (Error ''Unexpected token in JSON'') \<and>
   scanReceipt_parse ex_JSON_parse (trim (strip_fences ex_response_text)) = Inl (Error ''Invalid receipt format'') \<and>
   scanReceipt (Inr ex_response_text) ex_JSON_parse = Inl (Error ''Failed to process receipt'')"
proof -
  have h: "ex_JSON_parse (trim (strip_fences ex_response_text)) = Inl (Error ''Unexpected token in JSON'')"
    unfolding ex_cleaned by (simp add: ex_JSON_parse_def)
  note c = scanReceipt_masks_invalid_format[where JSON_parse = ex_JSON_parse
      and response_text = ex_response_text, OF h]
  show ?thesis by (intro conjI h c[THEN conjunct1] c[THEN conjunct2, THEN conjunct1])
qed

section \<open>The demo seeder: the generated batch\<close>


















lemma with_ids_length [simp]: "length (with_ids ids k rows) = length rows"
  by (induction rows arbitrary: k) simp_all















lemma seeded_db_simps [simp]:
  "transactions (seeded_db env account st db) =
     filter (\<lambda>t. t_accountId t \<noteq> ACCOUNT_ID) (transactions db) @
       with_ids (seed_ids env) 0 (s_transactions st)"
  "accounts (seeded_db env account st db) =
     update_account_rows ACCOUNT_ID (SetBalance (a_balance account + s_balanceChange st)) (accounts db)"
  by (simp_all add: seeded_db_def)







end
